theory Spec2Isabelle
  imports
    Complex_Main
    "HOL-Library.Log_Nat"
    "HOL-Library.While_Combinator"
begin

section \<open>Strings of the host language\<close>

text \<open>
  A string of the host language is a sequence of UTF-16 code units; file names are such
  strings.  \<open>lit\<close> writes one from ASCII text.  The methods that
  \<^verbatim>\<open>src/utils/helper.ts\<close> calls on file names are written out below with their behaviour
  at the edges (\<^verbatim>\<open>lastIndexOf\<close> answers \<open>-1\<close> when nothing is found, \<^verbatim>\<open>slice\<close> counts a
  negative start from the end).
\<close>

type_synonym code_unit = nat

type_synonym jstring = "code_unit list"

definition lit :: "string \<Rightarrow> jstring" where
  "lit s = map of_char s"

text \<open>
  \<^verbatim>\<open>toLowerCase\<close> follows the Unicode case mapping.  On the ASCII range it maps \<open>A\<close> to \<open>Z\<close>
  onto \<open>a\<close> to \<open>z\<close> and keeps every other unit; the Kelvin sign \<open>U+212A\<close> becomes \<open>k\<close>.  What
  replaces any other unit is the rest of the Unicode table, which is the host language's
  and comes in as the parameter \<open>unicode_lower\<close>: the units that replace the unit at a
  position of a string (the mapping can depend on the neighbours and can give more than one
  unit).
\<close>

definition lower_unit :: "code_unit \<Rightarrow> code_unit" where
  "lower_unit u = (if 65 \<le> u \<and> u \<le> 90 then u + 32 else if u = 0x212A then 107 else u)"

definition lower_at :: "(jstring \<Rightarrow> nat \<Rightarrow> jstring) \<Rightarrow> jstring \<Rightarrow> nat \<Rightarrow> jstring" where
  "lower_at unicode_lower s i =
     (if s ! i < 128 \<or> s ! i = 0x212A then [lower_unit (s ! i)] else unicode_lower s i)"

definition toLowerCase :: "(jstring \<Rightarrow> nat \<Rightarrow> jstring) \<Rightarrow> jstring \<Rightarrow> jstring" where
  "toLowerCase unicode_lower s = concat (map (lower_at unicode_lower s) [0..<length s])"

text \<open>
  What the theorems assume of the rest of the table: a unit outside the ASCII range, other
  than the Kelvin sign, is replaced by units of which at least one is outside the ASCII
  range.  \<open>keep_table\<close> is a table that replaces every unit by itself.
\<close>

definition non_ascii_stays :: "(jstring \<Rightarrow> nat \<Rightarrow> jstring) \<Rightarrow> bool" where
  "non_ascii_stays unicode_lower \<longleftrightarrow>
     (\<forall>s i. i < length s \<longrightarrow> 128 \<le> s ! i \<longrightarrow> s ! i \<noteq> 0x212A \<longrightarrow>
        (\<exists>v \<in> set (unicode_lower s i). 128 \<le> v))"

definition keep_table :: "jstring \<Rightarrow> nat \<Rightarrow> jstring" where
  "keep_table s i = [s ! i]"

text \<open>\<^verbatim>\<open>s.lastIndexOf(c)\<close>: the scan keeps the index of the latest hit, starting from \<open>-1\<close>.\<close>

primrec lastIndexOf_from :: "jstring \<Rightarrow> code_unit \<Rightarrow> int \<Rightarrow> int \<Rightarrow> int" where
  "lastIndexOf_from [] c i found = found"
| "lastIndexOf_from (x # xs) c i found =
     lastIndexOf_from xs c (i + 1) (if x = c then i else found)"

definition lastIndexOf :: "jstring \<Rightarrow> code_unit \<Rightarrow> int" where
  "lastIndexOf s c = lastIndexOf_from s c 0 (- 1)"

text \<open>\<^verbatim>\<open>s.slice(start)\<close> with one argument.\<close>

definition slice_from :: "jstring \<Rightarrow> int \<Rightarrow> jstring" where
  "slice_from s start =
     (let len = int (length s);
          from = (if start < 0 then max (len + start) 0 else min start len)
      in drop (nat from) s)"

text \<open>\<^verbatim>\<open>s.endsWith(suffix)\<close>: an exact, case-sensitive comparison of the tail.\<close>

definition endsWith :: "jstring \<Rightarrow> jstring \<Rightarrow> bool" where
  "endsWith s suf =
     (length suf \<le> length s \<and> drop (length s - length suf) s = suf)"

section \<open>Spatial file loader\<close>

datatype SpatialFileEnum = ZIP | KML | GEOJSON

text \<open>
  Modelled from the spec: the declaration of \<^verbatim>\<open>SpatialFileEnum\<close>
  (\<^verbatim>\<open>@/types/spatial-file.enum\<close>) is not among the sources.  The spec lists the recognized
  extensions as \<^verbatim>\<open>.zip\<close>, \<^verbatim>\<open>.kml\<close> and \<^verbatim>\<open>.geojson\<close>, and the code compares the members
  with a lower-cased extension that starts at the dot.
\<close>

fun enum_value :: "SpatialFileEnum \<Rightarrow> jstring" where
  "enum_value ZIP = lit ''.zip''"
| "enum_value KML = lit ''.kml''"
| "enum_value GEOJSON = lit ''.geojson''"

record File =
  name :: jstring
  content :: string

definition validExtensions :: "SpatialFileEnum list" where
  "validExtensions = [ZIP, KML, GEOJSON]"

text \<open>
  \<^verbatim>\<open>getSpatialFileType\<close>.  A missing file is \<open>None\<close>.  The returned member is the one whose
  value is the lower-cased extension, which is what returning \<^verbatim>\<open>fileExtension\<close> itself
  after \<^verbatim>\<open>validExtensions.includes(fileExtension)\<close> amounts to.
\<close>

definition getSpatialFileType ::
  "(jstring \<Rightarrow> nat \<Rightarrow> jstring) \<Rightarrow> File option \<Rightarrow> SpatialFileEnum option" where
  "getSpatialFileType unicode_lower f =
     (case f of
        None \<Rightarrow> None
      | Some inputFile \<Rightarrow>
          (let fileExtension =
                 toLowerCase unicode_lower
                   (slice_from (name inputFile) (lastIndexOf (name inputFile) (of_char CHR ''.'')))
           in find (\<lambda>t. enum_value t = fileExtension) validExtensions))"

text \<open>
  The readers.  A promise settles to a rejection or to a document; next to it the model
  returns the list of reads of the file's content that were started, in order.  Parsing is
  the work of external collaborators and comes in as parameters: each one returns the
  document or the exception it throws.
\<close>

datatype io = ReadAsText | ArrayBuffer

datatype 'e rejection =
    Message string      \<comment> \<open>\<^verbatim>\<open>reject('...')\<close> with a bare string\<close>
  | ErrorObject string  \<comment> \<open>\<^verbatim>\<open>reject(new Error('...'))\<close>\<close>
  | Thrown 'e           \<comment> \<open>\<^verbatim>\<open>reject(error)\<close> with what a collaborator threw\<close>

record ('e, 'd) parsers =
  json_parse :: "string \<Rightarrow> 'e + 'd"
  kml_to_geojson :: "string \<Rightarrow> 'e + 'd"
  shp :: "string \<Rightarrow> 'e + 'd"

definition settle :: "'e + 'd \<Rightarrow> 'e rejection + 'd" where
  "settle r = (case r of Inl e \<Rightarrow> Inl (Thrown e) | Inr d \<Rightarrow> Inr d)"

definition readGeojsonFile ::
  "('e, 'd) parsers \<Rightarrow> File option \<Rightarrow> io list \<times> ('e rejection + 'd)" where
  "readGeojsonFile env f =
     (case f of
        None \<Rightarrow> ([], Inl (Message ''Please upload a valid .geojson file.''))
      | Some inputFile \<Rightarrow>
          if endsWith (name inputFile) (lit ''.geojson'')
          then ([ReadAsText], settle (json_parse env (content inputFile)))
          else ([], Inl (Message ''Please upload a valid .geojson file.'')))"

definition readKmlFile ::
  "('e, 'd) parsers \<Rightarrow> File option \<Rightarrow> io list \<times> ('e rejection + 'd)" where
  "readKmlFile env f =
     (case f of
        None \<Rightarrow> ([], Inl (Message ''Please upload a valid .kml file.''))
      | Some inputFile \<Rightarrow>
          if endsWith (name inputFile) (lit ''.kml'')
          then ([ReadAsText], settle (kml_to_geojson env (content inputFile)))
          else ([], Inl (Message ''Please upload a valid .kml file.'')))"

definition readShpInZipFile ::
  "('e, 'd) parsers \<Rightarrow> File option \<Rightarrow> io list \<times> ('e rejection + 'd)" where
  "readShpInZipFile env f =
     (case f of
        None \<Rightarrow> ([], Inl (Message ''Please upload a valid .zip file.''))
      | Some inputFile \<Rightarrow>
          if endsWith (name inputFile) (lit ''.zip'')
          then ([ArrayBuffer], settle (shp env (content inputFile)))
          else ([], Inl (Message ''Please upload a valid .zip file.'')))"

text \<open>
  \<^verbatim>\<open>getGeojsonData\<close>: the awaited reader's rejection is caught and passed on unchanged,
  its document is resolved unchanged.
\<close>

definition getGeojsonData ::
  "('e, 'd) parsers \<Rightarrow> (jstring \<Rightarrow> nat \<Rightarrow> jstring) \<Rightarrow> File option
     \<Rightarrow> io list \<times> ('e rejection + 'd)" where
  "getGeojsonData env unicode_lower inputFile =
     (let spatialFile = getSpatialFileType unicode_lower inputFile in
      if spatialFile = Some GEOJSON then readGeojsonFile env inputFile
      else if spatialFile = Some KML then readKmlFile env inputFile
      else if spatialFile = Some ZIP then readShpInZipFile env inputFile
      else ([], Inl (ErrorObject ''Invalid spatial filetype'')))"

text \<open>
  The rejections that tell the caller that the file is of no accepted format, which the spec
  calls format errors: the error of \<^verbatim>\<open>getGeojsonData\<close> for an extension that it does not know,
  and the message with which each reader rejects a name that does not end in its suffix.
\<close>

definition format_error :: "'e rejection \<Rightarrow> bool" where
  "format_error r \<longleftrightarrow>
     r = ErrorObject ''Invalid spatial filetype'' \<or>
     r = Message ''Please upload a valid .geojson file.'' \<or>
     r = Message ''Please upload a valid .kml file.'' \<or>
     r = Message ''Please upload a valid .zip file.''"

subsection \<open>What the spec calls the extension\<close>

text \<open>
  The final extension of a name is the part from its last dot on; a name without a dot has
  none.  A letter-case variant of a tag has, at every position, the tag's letter or the
  capital of it.  \<open>folds_to\<close> also lets the Kelvin sign stand for \<open>k\<close>.
\<close>

definition final_extension :: "jstring \<Rightarrow> jstring option" where
  "final_extension s =
     (if of_char CHR ''.'' \<in> set s
      then Some (of_char CHR ''.'' # rev (takeWhile (\<lambda>c. c \<noteq> of_char CHR ''.'') (rev s)))
      else None)"

definition capital :: "code_unit \<Rightarrow> code_unit" where
  "capital d = (if 97 \<le> d \<and> d \<le> 122 then d - 32 else d)"

definition case_variant :: "jstring \<Rightarrow> jstring \<Rightarrow> bool" where
  "case_variant e t = list_all2 (\<lambda>c d. c = d \<or> c = capital d) e t"

definition folds_to :: "jstring \<Rightarrow> jstring \<Rightarrow> bool" where
  "folds_to e t = list_all2 (\<lambda>c d. c = d \<or> c = capital d \<or> (c = 0x212A \<and> d = 107)) e t"

definition recognized :: "jstring \<Rightarrow> SpatialFileEnum option" where
  "recognized s =
     (case final_extension s of
        None \<Rightarrow> None
      | Some e \<Rightarrow>
          if case_variant e (lit ''.zip'') then Some ZIP
          else if case_variant e (lit ''.kml'') then Some KML
          else if case_variant e (lit ''.geojson'') then Some GEOJSON
          else None)"

definition detected :: "jstring \<Rightarrow> SpatialFileEnum option" where
  "detected s =
     (case final_extension s of
        None \<Rightarrow> None
      | Some e \<Rightarrow>
          if folds_to e (lit ''.zip'') then Some ZIP
          else if folds_to e (lit ''.kml'') then Some KML
          else if folds_to e (lit ''.geojson'') then Some GEOJSON
          else None)"

section \<open>Numbers of the host language\<close>

text \<open>
  A number of the host language is an IEEE 754 binary64 value: not-a-number, one of the two
  infinities, or a finite value, here the rational it denotes.  The two zeros are one value,
  \<open>Fin 0\<close>: no operation below tells them apart.  Arithmetic computes the exact rational
  result and rounds it to the nearest binary64 value, ties to the even significand.
\<close>

datatype number = NaN | PosInf | NegInf | Fin rat

definition pow2 :: "int \<Rightarrow> rat" where
  "pow2 e = (if 0 \<le> e then 2 ^ nat e else 1 / 2 ^ nat (- e))"

text \<open>The binary exponent of a positive rational \<open>a\<close>: \<open>2\<^sup>e \<le> a < 2\<^sup>e\<^sup>+\<^sup>1\<close>.\<close>

definition ilog2 :: "rat \<Rightarrow> int" where
  "ilog2 a = (if 1 \<le> a then bitlen \<lfloor>a\<rfloor> - 1 else - bitlen (\<lceil>1 / a\<rceil> - 1))"

definition round_half_even :: "rat \<Rightarrow> int" where
  "round_half_even x =
     (let f = \<lfloor>x\<rfloor>; r = x - of_int f
      in if r < 1 / 2 then f else if 1 / 2 < r then f + 1 else if even f then f else f + 1)"

text \<open>
  Rounding to binary64: 53 significant bits, the least exponent of a unit in the last place
  is \<open>-1074\<close> (subnormal values), and a rounded magnitude of \<open>2\<^sup>1\<^sup>0\<^sup>2\<^sup>4\<close> or more is an infinity.
\<close>

definition round64 :: "rat \<Rightarrow> number" where
  "round64 x =
     (if x = 0 then Fin 0
      else
        let a = \<bar>x\<bar>;
            ulp = pow2 (max (ilog2 a - 52) (- 1074));
            r = of_int (round_half_even (a / ulp)) * ulp
        in if 2 ^ 1024 \<le> r then (if 0 < x then PosInf else NegInf)
           else Fin (if 0 < x then r else - r))"

text \<open>The magnitude that a positive rational is rounded to, before the test for overflow.\<close>

definition rounded :: "rat \<Rightarrow> rat" where
  "rounded a =
     of_int (round_half_even (a / pow2 (max (ilog2 a - 52) (- 1074))))
       * pow2 (max (ilog2 a - 52) (- 1074))"

text \<open>The operators \<^verbatim>\<open>+\<close>, \<^verbatim>\<open>-\<close>, \<^verbatim>\<open>>\<close> and \<^verbatim>\<open>Math.abs\<close> on numbers.\<close>

fun plus_number :: "number \<Rightarrow> number \<Rightarrow> number" where
  "plus_number NaN y = NaN"
| "plus_number x NaN = NaN"
| "plus_number PosInf NegInf = NaN"
| "plus_number NegInf PosInf = NaN"
| "plus_number PosInf y = PosInf"
| "plus_number NegInf y = NegInf"
| "plus_number x PosInf = PosInf"
| "plus_number x NegInf = NegInf"
| "plus_number (Fin a) (Fin b) = round64 (a + b)"

fun minus_number :: "number \<Rightarrow> number \<Rightarrow> number" where
  "minus_number NaN y = NaN"
| "minus_number x NaN = NaN"
| "minus_number PosInf PosInf = NaN"
| "minus_number NegInf NegInf = NaN"
| "minus_number PosInf y = PosInf"
| "minus_number NegInf y = NegInf"
| "minus_number x PosInf = NegInf"
| "minus_number x NegInf = PosInf"
| "minus_number (Fin a) (Fin b) = round64 (a - b)"

fun Math_abs :: "number \<Rightarrow> number" where
  "Math_abs NaN = NaN"
| "Math_abs PosInf = PosInf"
| "Math_abs NegInf = PosInf"
| "Math_abs (Fin a) = Fin \<bar>a\<bar>"

fun greater_number :: "number \<Rightarrow> number \<Rightarrow> bool" where
  "greater_number NaN y = False"
| "greater_number x NaN = False"
| "greater_number PosInf PosInf = False"
| "greater_number PosInf y = True"
| "greater_number x PosInf = False"
| "greater_number NegInf y = False"
| "greater_number x NegInf = True"
| "greater_number (Fin a) (Fin b) = (b < a)"

section \<open>Coordinate normalizer\<close>

text \<open>
  Arrays are objects of a store and are passed by reference, so the model keeps them in an
  explicit store: a value of type \<open>addr\<close> names an array, \<open>arrays\<close> holds the elements of
  each one, and \<open>next_free\<close> is the first address that no array has been given yet.
  The coordinates of a hit feature are a position, an array of numbers with the longitude
  first.
\<close>

type_synonym addr = nat

record store =
  arrays :: "addr \<Rightarrow> number list"
  next_free :: addr

record 'p feature =
  geometry_coordinates :: addr
  properties :: 'p

record 'p MapMouseEvent =
  features :: "'p feature list option"
  lngLat_lng :: number

record 'p clicked =
  coordinates :: addr
  clicked_properties :: 'p

datatype js_error = TypeError

text \<open>\<^verbatim>\<open>a.slice()\<close>: a new array with the elements of the old one.\<close>

definition slice_array :: "store \<Rightarrow> addr \<Rightarrow> addr \<times> store" where
  "slice_array s a =
     (next_free s,
      s\<lparr>arrays := (arrays s)(next_free s := arrays s a), next_free := Suc (next_free s)\<rparr>)"

text \<open>
  Reading element \<open>0\<close> of an array gives \<^verbatim>\<open>undefined\<close> when the array is empty, and
  \<^verbatim>\<open>undefined\<close> is not-a-number in arithmetic.  Writing element \<open>0\<close> of an empty array makes
  it an array of one element.
\<close>

definition read0 :: "number list \<Rightarrow> number" where
  "read0 xs = (case xs of [] \<Rightarrow> NaN | x # _ \<Rightarrow> x)"

definition write0 :: "number list \<Rightarrow> number \<Rightarrow> number list" where
  "write0 xs v = (case xs of [] \<Rightarrow> [v] | _ # rest \<Rightarrow> v # rest)"

text \<open>
  The loop
  \<^verbatim>\<open>while (Math.abs(e.lngLat.lng - coordinates[0]) > 180)
      coordinates[0] += e.lngLat.lng > coordinates[0] ? 360 : -360;\<close>
  First its test and the new value of \<^verbatim>\<open>coordinates[0]\<close> as functions of the click
  longitude and the value read from \<^verbatim>\<open>coordinates[0]\<close>, then the test and the body on the
  store; \<open>while_option\<close> is \<open>None\<close> when the loop runs forever.
\<close>

definition lng_test :: "number \<Rightarrow> number \<Rightarrow> bool" where
  "lng_test lng c = greater_number (Math_abs (minus_number lng c)) (Fin 180)"

definition lng_step :: "number \<Rightarrow> number \<Rightarrow> number" where
  "lng_step lng c = plus_number c (if greater_number lng c then Fin 360 else Fin (- 360))"

definition wrap_test :: "number \<Rightarrow> addr \<Rightarrow> store \<Rightarrow> bool" where
  "wrap_test lng a s = lng_test lng (read0 (arrays s a))"

definition wrap_body :: "number \<Rightarrow> addr \<Rightarrow> store \<Rightarrow> store" where
  "wrap_body lng a s =
     s\<lparr>arrays := (arrays s)(a := write0 (arrays s a) (lng_step lng (read0 (arrays s a))))\<rparr>"

definition wrap_loop :: "number \<Rightarrow> addr \<Rightarrow> store \<Rightarrow> store option" where
  "wrap_loop lng a s = while_option (wrap_test lng a) (wrap_body lng a) s"

text \<open>
  \<^verbatim>\<open>getMapLibreCoordinate\<close>.  The result is \<open>None\<close> when the call does not return; otherwise
  it is the store after the call together with the thrown error, \<^verbatim>\<open>undefined\<close>
  (\<open>Inr None\<close>) or the returned object.  An absent \<^verbatim>\<open>features\<close> field is \<open>None\<close>; an empty
  list is an object and passes the test \<^verbatim>\<open>!e.features\<close>, and reading \<^verbatim>\<open>geometry\<close> of its
  missing first element throws.
\<close>

definition getMapLibreCoordinate ::
  "store \<Rightarrow> 'p MapMouseEvent \<Rightarrow> (store \<times> (js_error + 'p clicked option)) option" where
  "getMapLibreCoordinate s e =
     (case features e of
        None \<Rightarrow> Some (s, Inr None)
      | Some [] \<Rightarrow> Some (s, Inl TypeError)
      | Some (f # _) \<Rightarrow>
          (let (coords, s1) = slice_array s (geometry_coordinates f) in
           case wrap_loop (lngLat_lng e) coords s1 of
             None \<Rightarrow> None
           | Some s2 \<Rightarrow>
               Some (s2, Inr (Some \<lparr>coordinates = coords, clicked_properties = properties f\<rparr>))))"


text \<open>A store without arrays.\<close>

definition no_arrays :: "addr \<Rightarrow> number list" where
  "no_arrays a = []"


section \<open>Property mappings\<close>

text \<open>
  Property values are data as a parsed document holds them.  An object is the list of its
  own enumerable properties in the order in which \<^verbatim>\<open>Object.keys\<close> and \<^verbatim>\<open>for ... in\<close> visit
  them; its prototype is the standard one, which has no enumerable property.  Keys are only
  ever compared for equality, so they are kept as plain text.
\<close>

datatype any =
    VUndefined
  | VNull
  | VBoolean bool
  | VNumber number
  | VString string
  | VArray "any list"
  | VObject "(string \<times> any) list"

type_synonym ObjectLiteral = "(string \<times> any) list"

text \<open>Truthiness: what a condition makes of a value.\<close>

fun truthy :: "any \<Rightarrow> bool" where
  "truthy VUndefined = False"
| "truthy VNull = False"
| "truthy (VBoolean b) = b"
| "truthy (VNumber n) = (n \<noteq> NaN \<and> n \<noteq> Fin 0)"
| "truthy (VString s) = (s \<noteq> [])"
| "truthy (VArray xs) = True"
| "truthy (VObject ps) = True"

definition Object_keys :: "ObjectLiteral \<Rightarrow> string list" where
  "Object_keys obj = map fst obj"

text \<open>\<^verbatim>\<open>key in obj\<close> and \<^verbatim>\<open>obj[key]\<close> for the keys the code asks for.\<close>

definition key_in :: "string \<Rightarrow> ObjectLiteral \<Rightarrow> bool" where
  "key_in key obj = (key \<in> set (Object_keys obj))"

definition get :: "ObjectLiteral \<Rightarrow> string \<Rightarrow> any" where
  "get obj key = (case map_of obj key of None \<Rightarrow> VUndefined | Some v \<Rightarrow> v)"

subsection \<open>Label extractor\<close>

definition preferredKeys :: "string list" where
  "preferredKeys = [''name'', ''nama'', ''nameobj'', ''id'', ''fid'', ''objectid'', ''description'']"

text \<open>The \<^verbatim>\<open>for ... of\<close> loop with its early return.\<close>

fun scan_preferred :: "ObjectLiteral \<Rightarrow> string list \<Rightarrow> any option" where
  "scan_preferred obj [] = None"
| "scan_preferred obj (key # keys) =
     (if key_in key obj \<and> truthy (get obj key) then Some (get obj key)
      else scan_preferred obj keys)"

definition extractLabelValueFromObj :: "ObjectLiteral \<Rightarrow> any" where
  "extractLabelValueFromObj obj =
     (case scan_preferred obj preferredKeys of
        Some v \<Rightarrow> v
      | None \<Rightarrow>
          (case find (\<lambda>key. truthy (get obj key)) (Object_keys obj) of
             None \<Rightarrow> VUndefined
           | Some firstNonFalsyKey \<Rightarrow>
               if truthy (VString firstNonFalsyKey) then get obj firstNonFalsyKey
               else VUndefined))"

subsection \<open>Properties table renderer\<close>

definition sq :: string where
  "sq = [CHR 0x27]"

definition nl :: string where
  "nl = [CHR 0x0A]"

text \<open>
  One row of the table, from the number of rows built so far, the key and the string that
  the template literal made of the value.
\<close>

definition row :: "nat \<Rightarrow> string \<Rightarrow> string \<Rightarrow> string" where
  "row len key str =
     ''<tr style='' @ sq @ (if len mod 2 = 0 then ''background-color: #dddddd'' else [])
       @ sq @ ''>'' @ nl
     @ ''            <td>'' @ key @ ''</td>'' @ nl
     @ ''            <td style='' @ sq @ ''word-break: break-all'' @ sq @ ''>''
       @ str @ ''</td>'' @ nl
     @ ''          </tr>''"

text \<open>
  \<^verbatim>\<open>props.hasOwnProperty(key)\<close> looks the method up on \<open>props\<close> first.  An own property of
  that name hides the standard method, and its value, being data, cannot be called.
\<close>

definition hasOwnProperty :: "ObjectLiteral \<Rightarrow> string \<Rightarrow> js_error + bool" where
  "hasOwnProperty props key =
     (case map_of props ''hasOwnProperty'' of
        Some v \<Rightarrow> Inl TypeError
      | None \<Rightarrow> Inr (key \<in> set (Object_keys props)))"

text \<open>
  The \<^verbatim>\<open>for ... in\<close> loop over the keys still to visit, with \<^verbatim>\<open>listRow\<close> as built so far.
  \<open>toStr\<close> is the conversion of a value to a string that a template literal applies; it is
  the host language's and comes in as a parameter.  It returns the string or the error it
  throws, as it does for an object whose \<^verbatim>\<open>toString\<close> is not a function.
\<close>

fun rows_loop ::
  "(any \<Rightarrow> js_error + string) \<Rightarrow> ObjectLiteral \<Rightarrow> string list \<Rightarrow> string list
     \<Rightarrow> js_error + string list" where
  "rows_loop toStr props [] listRow = Inr listRow"
| "rows_loop toStr props (key # keys) listRow =
     (if key = ''WKT_GEOMETRY'' \<or> key = ''ogc_fid'' then rows_loop toStr props keys listRow
      else
        case hasOwnProperty props key of
          Inl err \<Rightarrow> Inl err
        | Inr True \<Rightarrow>
            (case toStr (get props key) of
               Inl err \<Rightarrow> Inl err
             | Inr str \<Rightarrow>
                 rows_loop toStr props keys (listRow @ [row (length listRow) key str]))
        | Inr False \<Rightarrow> rows_loop toStr props keys listRow)"

definition propertiesTableDiv ::
  "(any \<Rightarrow> js_error + string) \<Rightarrow> ObjectLiteral \<Rightarrow> js_error + string" where
  "propertiesTableDiv toStr props =
     (case rows_loop toStr props (Object_keys props) [] of
        Inl err \<Rightarrow> Inl err
      | Inr listRow \<Rightarrow>
          Inr (''<table style='' @ sq @ ''border: 1px solid #dddddd'' @ sq @ ''>''
               @ concat listRow @ ''</table>''))"

section \<open>Bounding box\<close>

text \<open>
  \<^verbatim>\<open>getBboxFromGeojson\<close>.  The geometry-bounds algorithm \<^verbatim>\<open>turf.bbox\<close> is an external
  collaborator and comes in as a parameter that returns the box or the error it throws.
  A missing document is \<open>None\<close>.  The result is a sum so that an error that left the function
  would show as \<open>Inl\<close>.
\<close>

definition try_catch :: "'e + 'a \<Rightarrow> ('e \<Rightarrow> 'f + 'a) \<Rightarrow> 'f + 'a" where
  "try_catch body handler = (case body of Inl err \<Rightarrow> handler err | Inr v \<Rightarrow> Inr v)"

definition getBboxFromGeojson :: "('d \<Rightarrow> 'e + 'b) \<Rightarrow> 'd option \<Rightarrow> 'e + 'b option" where
  "getBboxFromGeojson turf_bbox geojsonData =
     (case geojsonData of
        None \<Rightarrow> Inr None
      | Some d \<Rightarrow>
          try_catch (case turf_bbox d of Inl err \<Rightarrow> Inl err | Inr bbox \<Rightarrow> Inr (Some bbox))
            (\<lambda>err. Inr None))"

section \<open>Properties of the spatial file loader\<close>

subsection \<open>The extension that \<^verbatim>\<open>getSpatialFileType\<close> looks at\<close>

lemma lastIndexOf_from_absent:
  "c \<notin> set s \<Longrightarrow> lastIndexOf_from s c i found = found"
  by (induction s arbitrary: i found) auto

lemma lastIndexOf_from_last:
  "c \<notin> set ext \<Longrightarrow> lastIndexOf_from (pre @ c # ext) c i found = i + int (length pre)"
  by (induction pre arbitrary: i found) (auto simp: lastIndexOf_from_absent)

lemma slice_from_last_dot:
  "c \<notin> set ext \<Longrightarrow> slice_from (pre @ c # ext) (lastIndexOf (pre @ c # ext) c) = c # ext"
  by (simp add: slice_from_def lastIndexOf_def lastIndexOf_from_last Let_def)

text \<open>Without a dot the index is \<open>-1\<close> and the slice is the last unit, if there is one.\<close>

lemma slice_from_no_dot:
  "c \<notin> set s \<Longrightarrow> length (slice_from s (lastIndexOf s c)) \<le> 1"
  by (auto simp: slice_from_def lastIndexOf_def lastIndexOf_from_absent Let_def)

lemma final_extension_last:
  assumes "46 \<notin> set ext"
  shows "final_extension (pre @ 46 # ext) = Some (46 # ext)"
proof -
  have tw: "takeWhile (\<lambda>c. c \<noteq> 46) (rev ext) = rev ext"
    by (rule takeWhile_eq_all_conv [THEN iffD2]) (use assms in auto)
  show ?thesis
    by (simp add: final_extension_def takeWhile_tail tw)
qed

subsection \<open>Lower-casing an extension\<close>

lemma toLowerCase_ascii:
  assumes "\<forall>u \<in> set s. u < 128 \<or> u = 0x212A"
  shows "toLowerCase unicode_lower s = map lower_unit s"
proof -
  have m: "map (lower_at unicode_lower s) [0..<length s]
          = map (\<lambda>i. [lower_unit (s ! i)]) [0..<length s]"
    using assms by (intro map_cong refl) (simp add: lower_at_def)
  have "toLowerCase unicode_lower s = map (\<lambda>i. lower_unit (s ! i)) [0..<length s]"
    by (simp only: toLowerCase_def m concat_map_singleton)
  also have "\<dots> = map lower_unit (map ((!) s) [0..<length s])"
    by simp
  also have "\<dots> = map lower_unit s"
    by (simp only: map_nth)
  finally show ?thesis .
qed

lemma toLowerCase_other:
  assumes "non_ascii_stays unicode_lower" and "u \<in> set s" and "128 \<le> u" and "u \<noteq> 0x212A"
  shows "\<exists>v \<in> set (toLowerCase unicode_lower s). 128 \<le> v"
proof -
  from assms(2) obtain i where i: "i < length s" and u: "s ! i = u"
    by (auto simp: in_set_conv_nth)
  with assms obtain v where "v \<in> set (unicode_lower s i)" and "128 \<le> v"
    unfolding non_ascii_stays_def by blast
  moreover have "lower_at unicode_lower s i = unicode_lower s i"
    using assms(3,4) u by (simp add: lower_at_def)
  ultimately show ?thesis
    using i unfolding toLowerCase_def by force
qed

lemma toLowerCase_eq_ascii_iff:
  assumes "non_ascii_stays unicode_lower" and "\<forall>d \<in> set t. d < 128"
  shows "toLowerCase unicode_lower e = t \<longleftrightarrow>
           (\<forall>u \<in> set e. u < 128 \<or> u = 0x212A) \<and> map lower_unit e = t"
proof (cases "\<forall>u \<in> set e. u < 128 \<or> u = 0x212A")
  case True
  then show ?thesis
    by (simp add: toLowerCase_ascii)
next
  case False
  then obtain u where "u \<in> set e" and "128 \<le> u" and "u \<noteq> 0x212A"
    by auto
  from toLowerCase_other [OF assms(1) this] assms(2) have "toLowerCase unicode_lower e \<noteq> t"
    by auto
  with False show ?thesis
    by simp
qed

lemma lower_unit_eq_iff:
  assumes "d = 46 \<or> (97 \<le> d \<and> d \<le> 122)"
  shows "(u < 128 \<or> u = 0x212A) \<and> lower_unit u = d \<longleftrightarrow>
           u = d \<or> u = capital d \<or> (u = 0x212A \<and> d = 107)"
  using assms by (auto simp: lower_unit_def capital_def)

lemma map_lower_unit_iff:
  assumes "\<forall>d \<in> set t. d = 46 \<or> (97 \<le> d \<and> d \<le> 122)"
  shows "(\<forall>u \<in> set e. u < 128 \<or> u = 0x212A) \<and> map lower_unit e = t \<longleftrightarrow> folds_to e t"
  using assms
proof (induction e arbitrary: t)
  case Nil
  then show ?case by (auto simp: folds_to_def)
next
  case (Cons u e)
  show ?case
  proof (cases t)
    case Nil
    then show ?thesis by (simp add: folds_to_def)
  next
    case (Cons d t')
    with Cons.prems have d: "d = 46 \<or> (97 \<le> d \<and> d \<le> 122)"
      and t': "\<forall>d \<in> set t'. d = 46 \<or> (97 \<le> d \<and> d \<le> 122)"
      by simp_all
    from Cons.IH [OF t'] lower_unit_eq_iff [OF d, of u] Cons show ?thesis
      unfolding folds_to_def by auto
  qed
qed

lemma tag_units:
  "\<forall>d \<in> set (lit ''.zip''). d = 46 \<or> (97 \<le> d \<and> d \<le> 122)"
  "\<forall>d \<in> set (lit ''.kml''). d = 46 \<or> (97 \<le> d \<and> d \<le> 122)"
  "\<forall>d \<in> set (lit ''.geojson''). d = 46 \<or> (97 \<le> d \<and> d \<le> 122)"
  by (simp_all add: lit_def)

lemma toLowerCase_eq_tag_iff:
  assumes "non_ascii_stays unicode_lower"
    and "\<forall>d \<in> set t. d = 46 \<or> (97 \<le> d \<and> d \<le> 122)"
  shows "toLowerCase unicode_lower e = t \<longleftrightarrow> folds_to e t"
proof -
  from assms(2) have "\<forall>d \<in> set t. d < 128"
    by auto
  from toLowerCase_eq_ascii_iff [OF assms(1) this] map_lower_unit_iff [OF assms(2)]
  show ?thesis by simp
qed

lemma folds_to_unique:
  assumes "\<forall>d \<in> set t. d = 46 \<or> (97 \<le> d \<and> d \<le> 122)"
    and "\<forall>d \<in> set t'. d = 46 \<or> (97 \<le> d \<and> d \<le> 122)"
    and "folds_to e t" and "folds_to e t'"
  shows "t = t'"
  using map_lower_unit_iff [OF assms(1), of e] map_lower_unit_iff [OF assms(2), of e] assms(3,4)
  by simp

lemma tags_differ:
  "lit ''.zip'' \<noteq> lit ''.kml''" "lit ''.zip'' \<noteq> lit ''.geojson''"
  "lit ''.kml'' \<noteq> lit ''.geojson''"
  by (simp_all add: lit_def)

lemma folds_to_exclusive:
  "folds_to e (lit ''.zip'') \<Longrightarrow> \<not> folds_to e (lit ''.kml'') \<and> \<not> folds_to e (lit ''.geojson'')"
  "folds_to e (lit ''.kml'') \<Longrightarrow> \<not> folds_to e (lit ''.geojson'')"
  using folds_to_unique [OF tag_units(1) tag_units(2), of e]
    folds_to_unique [OF tag_units(1) tag_units(3), of e]
    folds_to_unique [OF tag_units(2) tag_units(3), of e] tags_differ
  by blast+

lemma case_variant_folds_to: "case_variant e t \<Longrightarrow> folds_to e t"
  unfolding case_variant_def folds_to_def by (auto elim: list_all2_mono)

lemma dot_unit: "of_char CHR ''.'' = (46::nat)"
  by simp

lemma getSpatialFileType_detected:
  assumes "non_ascii_stays unicode_lower"
  shows "getSpatialFileType unicode_lower (Some f) = detected (name f)"
proof (cases "46 \<in> set (name f)")
  case True
  then obtain pre ext where n: "name f = pre @ 46 # ext" and e: "46 \<notin> set ext"
    by (auto dest: split_list_last)
  note tag = toLowerCase_eq_tag_iff [OF assms, of _ "46 # ext"]
  have "lit ''.zip'' = toLowerCase unicode_lower (46 # ext) \<longleftrightarrow> folds_to (46 # ext) (lit ''.zip'')"
    "lit ''.kml'' = toLowerCase unicode_lower (46 # ext) \<longleftrightarrow> folds_to (46 # ext) (lit ''.kml'')"
    "lit ''.geojson'' = toLowerCase unicode_lower (46 # ext)
       \<longleftrightarrow> folds_to (46 # ext) (lit ''.geojson'')"
    by (subst eq_commute, rule tag, rule tag_units)+
  then show ?thesis
    by (simp add: getSpatialFileType_def detected_def n slice_from_last_dot [OF e]
        final_extension_last [OF e] validExtensions_def)
next
  case False
  let ?x = "slice_from (name f) (lastIndexOf (name f) 46)"
  have len: "length ?x \<le> 1"
    by (rule slice_from_no_dot [OF False])
  have "\<not> folds_to ?x t" if "1 < length t" for t
    using that len by (auto simp: folds_to_def dest: list_all2_lengthD)
  then have "\<not> folds_to ?x (lit ''.zip'')" "\<not> folds_to ?x (lit ''.kml'')"
    "\<not> folds_to ?x (lit ''.geojson'')"
    by (simp_all add: lit_def)
  then have "lit ''.zip'' \<noteq> toLowerCase unicode_lower ?x"
    "lit ''.kml'' \<noteq> toLowerCase unicode_lower ?x"
    "lit ''.geojson'' \<noteq> toLowerCase unicode_lower ?x"
    using toLowerCase_eq_tag_iff [OF assms tag_units(1), of ?x]
      toLowerCase_eq_tag_iff [OF assms tag_units(2), of ?x]
      toLowerCase_eq_tag_iff [OF assms tag_units(3), of ?x]
    by metis+
  with False show ?thesis
    by (simp add: getSpatialFileType_def detected_def final_extension_def validExtensions_def
        Let_def)
qed

lemma non_ascii_stays_keep_table: "non_ascii_stays keep_table"
  by (simp add: non_ascii_stays_def keep_table_def)

text \<open>
  Claim C3 as stated fails: in the name \<^verbatim>\<open>x.\<close>\<open>K\<close>\<^verbatim>\<open>ml\<close>, where \<open>K\<close> is the Kelvin sign
  \<open>U+212A\<close>, the final extension is no letter-case variant of a recognized extension, and
  \<^verbatim>\<open>getSpatialFileType\<close> returns the member \<^verbatim>\<open>.kml\<close>, because \<^verbatim>\<open>toLowerCase\<close> turns the
  Kelvin sign into \<open>k\<close>.
\<close>

theorem getSpatialFileType_kelvin_sign:
  "recognized (lit ''x.'' @ [0x212A] @ lit ''ml'') = None \<and>
   getSpatialFileType keep_table
     (Some \<lparr>name = lit ''x.'' @ [0x212A] @ lit ''ml'', content = []\<rparr>) = Some KML"
  by (simp add: recognized_def final_extension_def case_variant_def capital_def lit_def
      getSpatialFileType_def toLowerCase_def lower_at_def lower_unit_def upt_rec slice_from_def
      lastIndexOf_def validExtensions_def)

text \<open>The same holds whatever the rest of the Unicode table is, and whatever the content.\<close>

lemma kelvin_sign_every_table:
  "getSpatialFileType unicode_lower
     (Some \<lparr>name = lit ''x.'' @ [0x212A] @ lit ''ml'', content = c\<rparr>) = Some KML"
  by (simp add: lit_def getSpatialFileType_def toLowerCase_def lower_at_def lower_unit_def upt_rec
      slice_from_def lastIndexOf_def validExtensions_def)

text \<open>
  Claim C3, amended.  When the final extension of the file's name, the part from its last
  dot on, is a letter-case variant of \<^verbatim>\<open>.zip\<close>, \<^verbatim>\<open>.kml\<close> or \<^verbatim>\<open>.geojson\<close>, where the Kelvin
  sign \<open>U+212A\<close> counts as a variant of \<open>k\<close>, then \<^verbatim>\<open>getSpatialFileType\<close> returns the member
  of that format; for every other name, and for a name without a dot, it returns nothing.
\<close>

theorem getSpatialFileType_by_extension:
  assumes "non_ascii_stays unicode_lower"
  shows
  "(final_extension (name f) = None \<longrightarrow> getSpatialFileType unicode_lower (Some f) = None) \<and>
   (\<forall>e. final_extension (name f) = Some e \<longrightarrow>
      (folds_to e (lit ''.zip'') \<longrightarrow> getSpatialFileType unicode_lower (Some f) = Some ZIP) \<and>
      (folds_to e (lit ''.kml'') \<longrightarrow> getSpatialFileType unicode_lower (Some f) = Some KML) \<and>
      (folds_to e (lit ''.geojson'') \<longrightarrow>
         getSpatialFileType unicode_lower (Some f) = Some GEOJSON) \<and>
      (\<not> folds_to e (lit ''.zip'') \<and> \<not> folds_to e (lit ''.kml'') \<and>
       \<not> folds_to e (lit ''.geojson'')
         \<longrightarrow> getSpatialFileType unicode_lower (Some f) = None))"
  using folds_to_exclusive
  by (auto simp: getSpatialFileType_detected [OF assms] detected_def)

theorem getSpatialFileType_by_extension_witness:
  "non_ascii_stays keep_table \<and>
   getSpatialFileType keep_table (Some \<lparr>name = lit ''README'', content = []\<rparr>) = None \<and>
   getSpatialFileType keep_table (Some \<lparr>name = lit ''b.ZIP'', content = []\<rparr>) = Some ZIP \<and>
   getSpatialFileType keep_table (Some \<lparr>name = lit ''a.b.Kml'', content = []\<rparr>) = Some KML \<and>
   getSpatialFileType keep_table (Some \<lparr>name = lit ''X.GEOJSON'', content = []\<rparr>)
     = Some GEOJSON \<and>
   getSpatialFileType keep_table
     (Some \<lparr>name = lit ''x.'' @ [0x212A] @ lit ''ml'', content = []\<rparr>) = Some KML \<and>
   getSpatialFileType keep_table (Some \<lparr>name = lit ''a.kml.txt'', content = []\<rparr>) = None"
  using non_ascii_stays_keep_table
    getSpatialFileType_by_extension [OF non_ascii_stays_keep_table,
      of "\<lparr>name = lit ''README'', content = []\<rparr>"]
    getSpatialFileType_by_extension [OF non_ascii_stays_keep_table,
      of "\<lparr>name = lit ''b.ZIP'', content = []\<rparr>"]
    getSpatialFileType_by_extension [OF non_ascii_stays_keep_table,
      of "\<lparr>name = lit ''a.b.Kml'', content = []\<rparr>"]
    getSpatialFileType_by_extension [OF non_ascii_stays_keep_table,
      of "\<lparr>name = lit ''X.GEOJSON'', content = []\<rparr>"]
    getSpatialFileType_by_extension [OF non_ascii_stays_keep_table,
      of "\<lparr>name = lit ''x.'' @ [0x212A] @ lit ''ml'', content = []\<rparr>"]
    getSpatialFileType_by_extension [OF non_ascii_stays_keep_table,
      of "\<lparr>name = lit ''a.kml.txt'', content = []\<rparr>"]
  by (simp add: final_extension_def folds_to_def capital_def lit_def)

subsection \<open>Rejection without a read\<close>

lemma endsWith_append: "endsWith s suf \<Longrightarrow> \<exists>pre. s = pre @ suf"
  unfolding endsWith_def by (metis append_take_drop_id)

lemma recognized_small_letters:
  "recognized (pre @ lit ''.zip'') = Some ZIP"
  "recognized (pre @ lit ''.kml'') = Some KML"
  "recognized (pre @ lit ''.geojson'') = Some GEOJSON"
  using final_extension_last [of "lit ''zip''" pre] final_extension_last [of "lit ''kml''" pre]
    final_extension_last [of "lit ''geojson''" pre]
  by (simp_all add: recognized_def case_variant_def capital_def lit_def)

lemma recognized_endsWith:
  assumes "recognized n = None"
  shows "\<not> endsWith n (lit ''.zip'')" "\<not> endsWith n (lit ''.kml'')"
    "\<not> endsWith n (lit ''.geojson'')"
  using assms recognized_small_letters by (auto dest!: endsWith_append)

text \<open>
  A name whose extension is written with the Kelvin sign is dispatched to \<^verbatim>\<open>readKmlFile\<close>,
  which rejects it with its message, because the name does not end in \<^verbatim>\<open>.kml\<close>; no read is
  started.
\<close>

lemma getGeojsonData_kelvin_sign:
  "getGeojsonData env unicode_lower
     (Some \<lparr>name = lit ''x.'' @ [0x212A] @ lit ''ml'', content = c\<rparr>)
     = ([], Inl (Message ''Please upload a valid .kml file.''))"
proof -
  have "\<not> endsWith (lit ''x.'' @ [0x212A] @ lit ''ml'') (lit ''.kml'')"
    by (simp add: endsWith_def lit_def)
  then show ?thesis
    unfolding getGeojsonData_def kelvin_sign_every_table
    by (simp add: readKmlFile_def)
qed

text \<open>
  Claim C4.  For a missing file, and for a file whose name has no final extension or one
  that is no letter-case variant of a recognized extension, \<^verbatim>\<open>getGeojsonData\<close> starts no read
  of the file's content and rejects with a format error.  The error is
  \<^verbatim>\<open>Invalid spatial filetype\<close> for a missing file and whenever the extension does not even
  lower-case to a recognized one; otherwise it is the message of a reader, as for an extension
  written with the Kelvin sign.
\<close>

theorem getGeojsonData_unrecognized:
  "getGeojsonData env unicode_lower None = ([], Inl (ErrorObject ''Invalid spatial filetype'')) \<and>
   (recognized (name f) = None \<longrightarrow>
      fst (getGeojsonData env unicode_lower (Some f)) = [] \<and>
      (\<exists>r. snd (getGeojsonData env unicode_lower (Some f)) = Inl r \<and> format_error r)) \<and>
   (non_ascii_stays unicode_lower \<and> detected (name f) = None \<longrightarrow>
      getGeojsonData env unicode_lower (Some f)
        = ([], Inl (ErrorObject ''Invalid spatial filetype'')))"
proof (intro conjI impI)
  show "getGeojsonData env unicode_lower None
          = ([], Inl (ErrorObject ''Invalid spatial filetype''))"
    by (simp add: getGeojsonData_def getSpatialFileType_def)
next
  assume "recognized (name f) = None"
  note ne = recognized_endsWith [OF this]
  show "fst (getGeojsonData env unicode_lower (Some f)) = []"
    by (simp add: getGeojsonData_def Let_def readGeojsonFile_def readKmlFile_def
        readShpInZipFile_def ne)
  show "\<exists>r. snd (getGeojsonData env unicode_lower (Some f)) = Inl r \<and> format_error r"
    by (simp add: getGeojsonData_def Let_def readGeojsonFile_def readKmlFile_def
        readShpInZipFile_def ne format_error_def)
next
  assume "non_ascii_stays unicode_lower \<and> detected (name f) = None"
  then show "getGeojsonData env unicode_lower (Some f)
               = ([], Inl (ErrorObject ''Invalid spatial filetype''))"
    by (simp add: getGeojsonData_def getSpatialFileType_detected)
qed

theorem getGeojsonData_unrecognized_witness:
  "recognized (lit ''x.txt'') = None \<and>
   recognized (lit ''x.'' @ [0x212A] @ lit ''ml'') = None \<and>
   non_ascii_stays keep_table \<and> detected (lit ''x.txt'') = None \<and>
   getGeojsonData
     (\<lparr>json_parse = Inr, kml_to_geojson = Inr, shp = Inr\<rparr> :: (unit, string) parsers)
     keep_table (Some \<lparr>name = lit ''x.txt'', content = ''{}''\<rparr>)
     = ([], Inl (ErrorObject ''Invalid spatial filetype'')) \<and>
   fst (getGeojsonData
     (\<lparr>json_parse = Inr, kml_to_geojson = Inr, shp = Inr\<rparr> :: (unit, string) parsers)
     keep_table (Some \<lparr>name = lit ''x.'' @ [0x212A] @ lit ''ml'', content = ''{}''\<rparr>)) = []"
proof -
  have h: "recognized (lit ''x.txt'') = None"
    "recognized (lit ''x.'' @ [0x212A] @ lit ''ml'') = None"
    "detected (lit ''x.txt'') = None"
    by (simp_all add: recognized_def detected_def final_extension_def case_variant_def
        folds_to_def capital_def lit_def)
  with non_ascii_stays_keep_table
    getGeojsonData_unrecognized
    [of "\<lparr>json_parse = Inr, kml_to_geojson = Inr, shp = Inr\<rparr> :: (unit, string) parsers"
        keep_table "\<lparr>name = lit ''x.txt'', content = ''{}''\<rparr>"]
    getGeojsonData_unrecognized
    [of "\<lparr>json_parse = Inr, kml_to_geojson = Inr, shp = Inr\<rparr> :: (unit, string) parsers"
        keep_table "\<lparr>name = lit ''x.'' @ [0x212A] @ lit ''ml'', content = ''{}''\<rparr>"]
  show ?thesis by simp
qed

text \<open>
  Claim C1, at a file named \<^verbatim>\<open>X.GEOJSON\<close>: the detection answers \<^verbatim>\<open>.geojson\<close>, and
  \<^verbatim>\<open>getGeojsonData\<close> rejects with the message of \<^verbatim>\<open>readGeojsonFile\<close> for a name that does
  not end in \<^verbatim>\<open>.geojson\<close>, without reading the content, whatever the content is.
\<close>

theorem getGeojsonData_upper_case_rejected:
  "getSpatialFileType unicode_lower (Some \<lparr>name = lit ''X.GEOJSON'', content = c\<rparr>)
     = Some GEOJSON \<and>
   getGeojsonData env unicode_lower (Some \<lparr>name = lit ''X.GEOJSON'', content = c\<rparr>)
     = ([], Inl (Message ''Please upload a valid .geojson file.''))"
proof -
  have t: "getSpatialFileType unicode_lower (Some \<lparr>name = lit ''X.GEOJSON'', content = c\<rparr>)
             = Some GEOJSON"
    by (simp add: lit_def getSpatialFileType_def toLowerCase_def lower_at_def lower_unit_def
        upt_rec slice_from_def lastIndexOf_def validExtensions_def)
  then show ?thesis
    by (simp add: getGeojsonData_def readGeojsonFile_def endsWith_def lit_def)
qed

section \<open>Properties of the leaf functions\<close>

text \<open>
  Claim C2, at an event whose list of hit features is empty: the call throws.  An event
  without the field returns \<^verbatim>\<open>undefined\<close>.
\<close>

theorem getMapLibreCoordinate_empty_features_throws:
  "getMapLibreCoordinate s \<lparr>features = Some [], lngLat_lng = lng\<rparr> = Some (s, Inl TypeError) \<and>
   getMapLibreCoordinate s \<lparr>features = None, lngLat_lng = lng\<rparr> = Some (s, Inr None)"
  by (simp add: getMapLibreCoordinate_def)

text \<open>
  Claim C5, at the object \<^verbatim>\<open>{"": "Z"}\<close>: its only key has a truthy value, and the result
  is \<^verbatim>\<open>undefined\<close>, because the key found, the empty string, is itself falsy.
\<close>

theorem extractLabelValueFromObj_empty_key:
  "truthy (get [('''', VString ''Z'')] '''') \<and>
   extractLabelValueFromObj [('''', VString ''Z'')] = VUndefined"
  by (simp add: extractLabelValueFromObj_def preferredKeys_def key_in_def Object_keys_def get_def)

text \<open>
  Claim C7.  \<^verbatim>\<open>getBboxFromGeojson\<close> never ends in an error: without a document it returns
  nothing, when the bounds algorithm throws it returns nothing, and otherwise it returns the
  box the algorithm computed.
\<close>

theorem getBboxFromGeojson_total:
  "(\<forall>err. getBboxFromGeojson turf_bbox g \<noteq> Inl err) \<and>
   getBboxFromGeojson turf_bbox None = Inr None \<and>
   (\<forall>e. turf_bbox d = Inl e \<longrightarrow> getBboxFromGeojson turf_bbox (Some d) = Inr None) \<and>
   (\<forall>b. turf_bbox d = Inr b \<longrightarrow> getBboxFromGeojson turf_bbox (Some d) = Inr (Some b))"
  by (simp add: getBboxFromGeojson_def try_catch_def split: option.split sum.split)

theorem getBboxFromGeojson_total_witness:
  "(\<lambda>d::nat. if d = 0 then Inl ''Unknown Geometry Type'' else Inr [d, d, d + 1, d + 1]) 0
     = Inl ''Unknown Geometry Type'' \<and>
   (\<lambda>d::nat. if d = 0 then Inl ''Unknown Geometry Type'' else Inr [d, d, d + 1, d + 1]) 7
     = Inr [7, 7, 8, 8] \<and>
   (getBboxFromGeojson
      (\<lambda>d::nat. if d = 0 then Inl ''Unknown Geometry Type'' else Inr [d, d, d + 1, d + 1])
      (Some 0)) = Inr None \<and>
   (getBboxFromGeojson
      (\<lambda>d::nat. if d = 0 then Inl ''Unknown Geometry Type'' else Inr [d, d, d + 1, d + 1])
      (Some 7)) = Inr (Some [7, 7, 8, 8])"
  using getBboxFromGeojson_total
    [of "\<lambda>d::nat. if d = 0 then Inl ''Unknown Geometry Type'' else Inr [d, d, d + 1, d + 1]"
        "None" 0]
    getBboxFromGeojson_total
    [of "\<lambda>d::nat. if d = 0 then Inl ''Unknown Geometry Type'' else Inr [d, d, d + 1, d + 1]"
        "None" 7]
  by simp

text \<open>
  Claim C8, at the object \<^verbatim>\<open>{"hasOwnProperty": "x"}\<close>: the call throws, because
  \<^verbatim>\<open>props.hasOwnProperty\<close> is the string \<^verbatim>\<open>"x"\<close> there and not the standard method.
\<close>

theorem propertiesTableDiv_shadowed_method_throws:
  "propertiesTableDiv toStr [(''hasOwnProperty'', VString ''x'')] = Inl TypeError"
  by (simp add: propertiesTableDiv_def Object_keys_def hasOwnProperty_def)

section \<open>Properties of the arithmetic\<close>

lemma ilog2_le:
  assumes "0 < a"
  shows "pow2 (ilog2 a) \<le> a"
proof (cases "1 \<le> a")
  case True
  define n where "n = \<lfloor>a\<rfloor>"
  from True have n: "1 \<le> n"
    by (simp add: n_def le_floor_iff)
  then have bl: "1 \<le> bitlen n"
    using bitlen_eq_zero_iff [of n] bitlen_nonneg [of n] by linarith
  from n bitlen_bounds [of n] have "(2::int) ^ nat (bitlen n - 1) \<le> n"
    by simp
  then have "(of_int ((2::int) ^ nat (bitlen n - 1)) :: rat) \<le> of_int n"
    by (simp only: of_int_le_iff)
  also have "\<dots> \<le> a"
    by (simp add: n_def)
  finally have "(2::rat) ^ nat (bitlen n - 1) \<le> a"
    by simp
  with True bl show ?thesis
    by (simp add: ilog2_def pow2_def n_def)
next
  case False
  define N where "N = \<lceil>1 / a\<rceil> - 1"
  from False assms have "1 < 1 / a"
    by (simp add: field_simps)
  then have "1 < \<lceil>1 / a\<rceil>"
    by (simp add: less_ceiling_iff)
  then have N: "1 \<le> N"
    by (simp add: N_def)
  then have bl: "1 \<le> bitlen N"
    using bitlen_eq_zero_iff [of N] bitlen_nonneg [of N] by linarith
  from N bitlen_bounds [of N] have "N < 2 ^ nat (bitlen N)"
    by simp
  then have "\<lceil>1 / a\<rceil> \<le> 2 ^ nat (bitlen N)"
    by (simp add: N_def)
  then have "1 / a \<le> of_int (2 ^ nat (bitlen N))"
    by (simp only: ceiling_le_iff)
  then have "1 / a \<le> 2 ^ nat (bitlen N)"
    by simp
  with assms have "1 / 2 ^ nat (bitlen N) \<le> a"
    by (simp add: field_simps)
  with False bl show ?thesis
    by (simp add: ilog2_def pow2_def N_def)
qed



subsection \<open>Rounding error\<close>

lemma pow2_powi: "pow2 e = 2 powi e"
  by (simp add: pow2_def power_int_def power_one_over inverse_eq_divide)

lemma pow2_pos: "0 < pow2 e"
  by (simp add: pow2_powi)

lemma pow2_mono: "i \<le> j \<Longrightarrow> pow2 i \<le> pow2 j"
  unfolding pow2_powi by (rule power_int_increasing) simp_all

lemma pow2_less_cancel: "pow2 i < pow2 j \<Longrightarrow> i < j"
  using pow2_mono [of j i] by (cases "i < j") simp_all

lemma pow2_half: "pow2 (k - 1) = pow2 k / 2"
  unfolding pow2_powi by (simp add: power_int_diff)

lemma ilog2_less:
  assumes "0 < a"
  shows "a < pow2 (ilog2 a + 1)"
proof (cases "1 \<le> a")
  case True
  define n where "n = \<lfloor>a\<rfloor>"
  from True have n: "1 \<le> n"
    by (simp add: n_def le_floor_iff)
  then have bl: "1 \<le> bitlen n"
    using bitlen_eq_zero_iff [of n] bitlen_nonneg [of n] by linarith
  from n bitlen_bounds [of n] have "n + 1 \<le> 2 ^ nat (bitlen n)"
    by simp
  then have "(of_int (n + 1) :: rat) \<le> of_int (2 ^ nat (bitlen n))"
    by (simp only: of_int_le_iff)
  moreover have "a < of_int (n + 1)"
    unfolding n_def by linarith
  ultimately have "a < 2 ^ nat (bitlen n)"
    by simp
  with True bl show ?thesis
    by (simp add: ilog2_def pow2_def n_def)
next
  case False
  define N where "N = \<lceil>1 / a\<rceil> - 1"
  from False assms have "1 < 1 / a"
    by (simp add: field_simps)
  then have "1 < \<lceil>1 / a\<rceil>"
    by (simp add: less_ceiling_iff)
  then have N: "1 \<le> N"
    by (simp add: N_def)
  then have bl: "1 \<le> bitlen N"
    using bitlen_eq_zero_iff [of N] bitlen_nonneg [of N] by linarith
  from N bitlen_bounds [of N] have "(2::int) ^ nat (bitlen N - 1) \<le> N"
    by simp
  then have "(of_int (2 ^ nat (bitlen N - 1)) :: rat) \<le> of_int N"
    by (simp only: of_int_le_iff)
  then have "(2::rat) ^ nat (bitlen N - 1) \<le> of_int N"
    by simp
  moreover have "of_int N < 1 / a"
    unfolding N_def by linarith
  ultimately have "2 ^ nat (bitlen N - 1) < 1 / a"
    by (rule le_less_trans)
  with assms have lt: "a < 1 / 2 ^ nat (bitlen N - 1)"
    by (simp add: field_simps)
  have "pow2 (ilog2 a + 1) = pow2 (- (bitlen N - 1))"
    using False by (simp add: ilog2_def N_def)
  also have "\<dots> = 1 / 2 ^ nat (bitlen N - 1)"
    using bl by (cases "bitlen N = 1") (simp_all add: pow2_def)
  finally show ?thesis
    using lt by simp
qed

lemma round_half_even_near: "\<bar>of_int (round_half_even x) - x\<bar> \<le> 1 / 2"
proof -
  have "of_int \<lfloor>x\<rfloor> \<le> x" and "x < of_int \<lfloor>x\<rfloor> + 1"
    by linarith+
  then show ?thesis
    by (auto simp: round_half_even_def Let_def)
qed

lemma round_half_even_le_even:
  assumes "x \<le> of_int n + 1 / 2" and "even n"
  shows "round_half_even x \<le> n"
proof -
  have fl: "of_int \<lfloor>x\<rfloor> \<le> x"
    by linarith
  with assms(1) have "(of_int \<lfloor>x\<rfloor> :: rat) < of_int n + 1"
    by linarith
  then have "(of_int \<lfloor>x\<rfloor> :: rat) < of_int (n + 1)"
    by simp
  then have le: "\<lfloor>x\<rfloor> \<le> n"
    by (simp only: of_int_less_iff)
  show ?thesis
  proof (cases "\<lfloor>x\<rfloor> = n")
    case True
    with assms show ?thesis
      by (simp add: round_half_even_def Let_def)
  next
    case False
    with le have "\<lfloor>x\<rfloor> + 1 \<le> n"
      by simp
    then show ?thesis
      by (simp add: round_half_even_def Let_def)
  qed
qed

lemma round_half_even_nonneg: "0 \<le> x \<Longrightarrow> 0 \<le> round_half_even x"
  by (simp add: round_half_even_def Let_def)

lemma round64_rounded:
  assumes "x \<noteq> 0"
  shows "round64 x =
    (if 2 ^ 1024 \<le> rounded \<bar>x\<bar> then (if 0 < x then PosInf else NegInf)
     else Fin (if 0 < x then rounded \<bar>x\<bar> else - rounded \<bar>x\<bar>))"
  using assms by (simp only: round64_def Let_def rounded_def if_False)

lemma rounded_nonneg: "0 < a \<Longrightarrow> 0 \<le> rounded a"
  unfolding rounded_def
  by (intro mult_nonneg_nonneg of_int_nonneg round_half_even_nonneg divide_nonneg_pos
      less_imp_le [OF pow2_pos] pow2_pos) simp

lemma rounded_error:
  assumes a: "0 < a" and k: "a < pow2 k" and lo: "- 1021 \<le> k"
  shows "\<bar>rounded a - a\<bar> \<le> pow2 (k - 54)"
proof -
  define u where "u = pow2 (max (ilog2 a - 52) (- 1074))"
  have u0: "0 < u"
    unfolding u_def by (rule pow2_pos)
  from ilog2_le [OF a] k have "pow2 (ilog2 a) < pow2 k"
    by (rule le_less_trans)
  then have "ilog2 a < k"
    by (rule pow2_less_cancel)
  with lo have "max (ilog2 a - 52) (- 1074) \<le> k - 53"
    by simp
  then have uk: "u \<le> pow2 (k - 53)"
    unfolding u_def by (rule pow2_mono)
  have "rounded a - a = (of_int (round_half_even (a / u)) - a / u) * u"
    using u0 by (simp add: rounded_def u_def [symmetric] field_simps)
  then have "\<bar>rounded a - a\<bar> = \<bar>of_int (round_half_even (a / u)) - a / u\<bar> * u"
    using u0 by (simp add: abs_mult)
  also have "\<dots> \<le> 1 / 2 * u"
    using round_half_even_near [of "a / u"] u0 by (intro mult_right_mono) simp_all
  also have "\<dots> \<le> 1 / 2 * pow2 (k - 53)"
    using uk by simp
  also have "\<dots> = pow2 (k - 54)"
    using pow2_half [of "k - 53"] by simp
  finally show ?thesis .
qed



lemma rounded_le_180:
  assumes a: "0 < a" and le: "a \<le> 180 + 1 / 2 ^ 46"
  shows "rounded a \<le> 180"
proof -
  have "a < pow2 8"
    using le by (simp add: pow2_def)
  with ilog2_le [OF a] have "pow2 (ilog2 a) < pow2 8"
    by (rule le_less_trans)
  then have e8: "ilog2 a < 8"
    by (rule pow2_less_cancel)
  show ?thesis
  proof (cases "ilog2 a = 7")
    case True
    have u: "pow2 (max (ilog2 a - 52) (- 1074)) = 1 / 2 ^ 45"
      by (simp add: True pow2_def)
    have "a / (1 / 2 ^ 45) \<le> of_int (180 * 2 ^ 45) + 1 / 2"
      using le by simp
    moreover have "even (180 * 2 ^ 45 :: int)"
      by simp
    ultimately have "round_half_even (a / (1 / 2 ^ 45)) \<le> 180 * 2 ^ 45"
      by (rule round_half_even_le_even)
    then have "(of_int (round_half_even (a / (1 / 2 ^ 45))) :: rat) \<le> of_int (180 * 2 ^ 45)"
      by (simp only: of_int_le_iff)
    then have "of_int (round_half_even (a / (1 / 2 ^ 45))) * (1 / 2 ^ 45) \<le> (180::rat)"
      by simp
    then show ?thesis
      by (simp only: rounded_def u)
  next
    case False
    with e8 have "ilog2 a + 1 \<le> 7"
      by simp
    then have "pow2 (ilog2 a + 1) \<le> pow2 7"
      by (rule pow2_mono)
    with ilog2_less [OF a] have "a < pow2 7"
      by (rule less_le_trans)
    moreover from this have "\<bar>rounded a - a\<bar> \<le> pow2 (7 - 54)"
      using a by (intro rounded_error) simp_all
    moreover have "pow2 (7 - 54) \<le> 1" and "pow2 7 = 128"
      by (simp_all add: pow2_def)
    ultimately show ?thesis
      by linarith
  qed
qed




text \<open>When the test of the loop holds, the two longitudes are more than \<open>180\<close> apart.\<close>

lemma lng_test_far:
  assumes "lng_test (Fin lng) (Fin c)"
  shows "180 + 1 / 2 ^ 46 < \<bar>lng - c\<bar>"
proof (rule ccontr)
  assume "\<not> 180 + 1 / 2 ^ 46 < \<bar>lng - c\<bar>"
  then have le: "\<bar>lng - c\<bar> \<le> 180 + 1 / 2 ^ 46"
    by simp
  show False
  proof (cases "lng - c = 0")
    case True
    with assms show False
      by (simp add: lng_test_def round64_def)
  next
    case False
    then have a: "0 < \<bar>lng - c\<bar>"
      by simp
    define R where "R = rounded \<bar>lng - c\<bar>"
    from rounded_le_180 [OF a le] rounded_nonneg [OF a] have R: "R \<le> 180" "0 \<le> R"
      by (simp_all only: R_def)
    then have small: "\<not> 2 ^ 1024 \<le> R"
      by simp
    from round64_rounded [OF False]
    have "round64 (lng - c) =
      (if 2 ^ 1024 \<le> R then (if 0 < lng - c then PosInf else NegInf)
       else Fin (if 0 < lng - c then R else - R))"
      by (simp only: R_def)
    with small have "round64 (lng - c) = Fin (if 0 < lng - c then R else - R)"
      by (simp only: if_False)
    with R have "Math_abs (round64 (lng - c)) = Fin R"
      by simp
    with assms R show False
      by (simp add: lng_test_def)
  qed
qed





section \<open>Properties of the coordinate normalizer\<close>

subsection \<open>Longitudes on the grid\<close>







subsection \<open>The loop on the longitude alone\<close>




subsection \<open>The loop on the store\<close>













subsection \<open>The loop on longitudes of bounded magnitude\<close>






subsection \<open>The claims about the loop and the call\<close>







text \<open>
  The longitudes themselves can be more than \<open>180\<close> apart when the loop stops: with click
  longitude \<open>180\<close> and feature longitude \<open>-2\<^sup>-\<^sup>6\<^sup>0\<close> the computed difference is \<open>180\<close>, the test
  fails at once and the store is left as it is.
\<close>

lemma wrap_loop_stops_just_above_180:
  "wrap_loop (Fin 180) 0 \<lparr>arrays = no_arrays(0 := [Fin (- (1 / 2 ^ 60)), Fin 0]), next_free = 1\<rparr>
     = Some \<lparr>arrays = no_arrays(0 := [Fin (- (1 / 2 ^ 60)), Fin 0]), next_free = 1\<rparr> \<and>
   180 < \<bar>180 - (- (1 / 2 ^ 60) :: rat)\<bar>"
proof -
  have "\<not> 180 + 1 / 2 ^ 46 < \<bar>180 - (- (1 / 2 ^ 60) :: rat)\<bar>"
    by simp
  then have "\<not> lng_test (Fin 180) (Fin (- (1 / 2 ^ 60)))"
    using lng_test_far [of 180 "- (1 / 2 ^ 60)"] by blast
  then have "wrap_loop (Fin 180) 0
      \<lparr>arrays = no_arrays(0 := [Fin (- (1 / 2 ^ 60)), Fin 0]), next_free = 1\<rparr>
     = Some \<lparr>arrays = no_arrays(0 := [Fin (- (1 / 2 ^ 60)), Fin 0]), next_free = 1\<rparr>"
    unfolding wrap_loop_def
    by (subst while_option_unfold) (simp add: wrap_test_def read0_def)
  then show ?thesis
    by simp
qed







section \<open>Behaviour away from the failing inputs\<close>

text \<open>
  A name that ends in a recognized extension written in small letters is dispatched to the
  reader of that format, one read is started, and the promise settles as the parser does.
\<close>

lemma getSpatialFileType_small_letters:
  "getSpatialFileType unicode_lower (Some \<lparr>name = pre @ lit ''.zip'', content = c\<rparr>) = Some ZIP"
  "getSpatialFileType unicode_lower (Some \<lparr>name = pre @ lit ''.kml'', content = c\<rparr>) = Some KML"
  "getSpatialFileType unicode_lower (Some \<lparr>name = pre @ lit ''.geojson'', content = c\<rparr>)
     = Some GEOJSON"
  using slice_from_last_dot [of 46 "lit ''zip''" pre] slice_from_last_dot [of 46 "lit ''kml''" pre]
    slice_from_last_dot [of 46 "lit ''geojson''" pre]
  by (simp_all add: lit_def getSpatialFileType_def toLowerCase_def lower_at_def lower_unit_def
      upt_rec validExtensions_def)

lemma getGeojsonData_small_letters:
  "endsWith (name f) (lit ''.geojson'') \<Longrightarrow>
     getGeojsonData env unicode_lower (Some f)
       = ([ReadAsText], settle (json_parse env (content f)))"
  "endsWith (name f) (lit ''.kml'') \<Longrightarrow>
     getGeojsonData env unicode_lower (Some f)
       = ([ReadAsText], settle (kml_to_geojson env (content f)))"
  "endsWith (name f) (lit ''.zip'') \<Longrightarrow>
     getGeojsonData env unicode_lower (Some f) = ([ArrayBuffer], settle (shp env (content f)))"
proof -
  assume h: "endsWith (name f) (lit ''.geojson'')"
  then obtain pre where "name f = pre @ lit ''.geojson''"
    by (auto dest: endsWith_append)
  then have "f = \<lparr>name = pre @ lit ''.geojson'', content = content f\<rparr>"
    by simp
  then have "getSpatialFileType unicode_lower (Some f) = Some GEOJSON"
    by (metis getSpatialFileType_small_letters(3))
  with h show "getGeojsonData env unicode_lower (Some f)
      = ([ReadAsText], settle (json_parse env (content f)))"
    by (simp add: getGeojsonData_def readGeojsonFile_def)
next
  assume h: "endsWith (name f) (lit ''.kml'')"
  then obtain pre where "name f = pre @ lit ''.kml''"
    by (auto dest: endsWith_append)
  then have "f = \<lparr>name = pre @ lit ''.kml'', content = content f\<rparr>"
    by simp
  then have "getSpatialFileType unicode_lower (Some f) = Some KML"
    by (metis getSpatialFileType_small_letters(2))
  with h show "getGeojsonData env unicode_lower (Some f)
      = ([ReadAsText], settle (kml_to_geojson env (content f)))"
    by (simp add: getGeojsonData_def readKmlFile_def)
next
  assume h: "endsWith (name f) (lit ''.zip'')"
  then obtain pre where "name f = pre @ lit ''.zip''"
    by (auto dest: endsWith_append)
  then have "f = \<lparr>name = pre @ lit ''.zip'', content = content f\<rparr>"
    by simp
  then have "getSpatialFileType unicode_lower (Some f) = Some ZIP"
    by (metis getSpatialFileType_small_letters(1))
  with h show "getGeojsonData env unicode_lower (Some f)
      = ([ArrayBuffer], settle (shp env (content f)))"
    by (simp add: getGeojsonData_def readShpInZipFile_def)
qed

text \<open>
  The label of an object whose key \<^verbatim>\<open>""\<close> has no truthy value: the value of the first
  prioritized key that is present with a truthy value, else the first truthy value in key
  order, else \<^verbatim>\<open>undefined\<close>.
\<close>

lemma scan_preferred_find:
  "scan_preferred obj keys =
     map_option (get obj) (find (\<lambda>key. key_in key obj \<and> truthy (get obj key)) keys)"
  by (induction keys) simp_all

lemma find_truthy_value:
  "map_option f (find (\<lambda>key. P (f key)) keys) = find P (map f keys)"
  by (induction keys) simp_all

lemma extractLabelValueFromObj_label:
  assumes "\<not> truthy (get obj [])"
  shows "extractLabelValueFromObj obj =
    (case find (\<lambda>key. key_in key obj \<and> truthy (get obj key)) preferredKeys of
       Some key \<Rightarrow> get obj key
     | None \<Rightarrow>
         (case find truthy (map (get obj) (Object_keys obj)) of
            Some v \<Rightarrow> v
          | None \<Rightarrow> VUndefined))"
proof -
  have "key \<noteq> []" if "find (\<lambda>key. truthy (get obj key)) (Object_keys obj) = Some key" for key
    using that assms by (auto simp: find_Some_iff)
  then show ?thesis
    unfolding extractLabelValueFromObj_def scan_preferred_find
      find_truthy_value [of "get obj" truthy, symmetric]
    by (auto split: option.splits)
qed

text \<open>
  The table of a mapping that has no property named \<^verbatim>\<open>hasOwnProperty\<close> and whose values
  all convert to strings: one row for each key that is not reserved, in key order, shaded
  when its position among the rows is even.
\<close>

lemma rows_loop_rows:
  assumes "''hasOwnProperty'' \<notin> set (Object_keys props)"
    and "\<forall>key \<in> set (Object_keys props). toStr (get props key) = Inr (txt key)"
    and "set keys \<subseteq> set (Object_keys props)"
  shows "rows_loop toStr props keys listRow =
    Inr (listRow @
         map (\<lambda>(i, key). row i key (txt key))
           (enumerate (length listRow)
              (filter (\<lambda>key. key \<noteq> ''WKT_GEOMETRY'' \<and> key \<noteq> ''ogc_fid'') keys)))"
  using assms(3)
proof (induction keys arbitrary: listRow)
  case Nil
  show ?case by simp
next
  case (Cons key keys)
  from assms(1) have "map_of props ''hasOwnProperty'' = None"
    by (simp add: Object_keys_def map_of_eq_None_iff)
  with Cons.prems have own: "hasOwnProperty props key = Inr True"
    by (simp add: hasOwnProperty_def)
  from Cons.prems assms(2) have str: "toStr (get props key) = Inr (txt key)"
    by simp
  from Cons.prems have "set keys \<subseteq> set (Object_keys props)"
    by simp
  note IH = Cons.IH [OF this]
  show ?case
    by (simp add: own str IH)
qed

lemma propertiesTableDiv_rows:
  assumes "''hasOwnProperty'' \<notin> set (Object_keys props)"
    and "\<forall>key \<in> set (Object_keys props). toStr (get props key) = Inr (txt key)"
  shows "propertiesTableDiv toStr props =
    Inr (''<table style='' @ sq @ ''border: 1px solid #dddddd'' @ sq @ ''>''
         @ concat (map (\<lambda>(i, key). row i key (txt key))
             (enumerate 0
                (filter (\<lambda>key. key \<noteq> ''WKT_GEOMETRY'' \<and> key \<noteq> ''ogc_fid'')
                   (Object_keys props))))
         @ ''</table>'')"
  by (simp add: propertiesTableDiv_def rows_loop_rows [OF assms subset_refl] del: append.simps)

text \<open>A value whose conversion throws ends the call with that error.\<close>

lemma propertiesTableDiv_conversion_throws:
  "toStr v = Inl err \<Longrightarrow> propertiesTableDiv toStr [(''a'', v)] = Inl err"
  by (simp add: propertiesTableDiv_def Object_keys_def hasOwnProperty_def get_def)

end
